theory Spec2Isabelle
  imports Complex_Main
begin

section \<open>The sklearn dialogue policy (rasa/core/policies/sklearn\_policy.py)\<close>

text \<open>
  A shallow embedding of \<^verbatim>\<open>SklearnPolicy\<close>: the history padder, the feature assembler,
  the trainer, the prediction post-processing and persist/load. Python exceptions are
  values of the type \<open>error\<close>; a function that may raise returns \<open>error + 'a\<close>, with
  \<open>Inl\<close> the exception raised.
\<close>

subsection \<open>Exceptions\<close>

datatype error =
    IndexError
  | ValueError
  | AxisError
  | TypeError
  | AttributeError
  | KeyError
  | NotFittedError
  | FileNotFoundError
  | OSError
  | AssertionError

subsection \<open>numpy arrays\<close>

text \<open>
  An \<^verbatim>\<open>np.ndarray\<close> is its shape and its elements in row-major order. The elements
  are reals: the policy only copies them and creates the constants \<open>-1\<close> and \<open>0\<close>.
\<close>

datatype ndarray = NDArray (shape: "nat list") (elems: "real list")

text \<open>\<^verbatim>\<open>np.ones(shape)\<close> and \<^verbatim>\<open>a * c\<close> for a scalar \<open>c\<close>.\<close>

definition np_ones :: "nat list \<Rightarrow> ndarray" where
  "np_ones sh = NDArray sh (replicate (prod_list sh) 1)"

definition np_times :: "ndarray \<Rightarrow> real \<Rightarrow> ndarray" where
  "np_times a c = NDArray (shape a) (map (\<lambda>x. x * c) (elems a))"

text \<open>\<^verbatim>\<open>a.shape[-1]\<close>: the tuple index raises IndexError on a zero-dimensional array.\<close>

definition shape_last :: "ndarray \<Rightarrow> error + nat" where
  "shape_last a = (case shape a of [] \<Rightarrow> Inl IndexError | _ # _ \<Rightarrow> Inr (last (shape a)))"

subsection \<open>The history padder\<close>

text \<open>
  \<^verbatim>\<open>_fill_in_features(state_features, max_length)\<close>. \<^verbatim>\<open>max_length\<close> is a Python int;
  \<^verbatim>\<open>[x] * n\<close> is the empty list for \<open>n \<le> 0\<close>; \<^verbatim>\<open>state_features[0]\<close> raises IndexError
  on the empty list.
\<close>

definition fill_in_features :: "ndarray list \<Rightarrow> int \<Rightarrow> error + ndarray list" where
  "fill_in_features state_features max_length =
     (if int (length state_features) = max_length then Inr state_features
      else
        (case state_features of
           [] \<Rightarrow> Inl IndexError
         | first # _ \<Rightarrow>
             (case shape_last first of
                Inl e \<Rightarrow> Inl e
              | Inr shape_of_input \<Rightarrow>
                  Inr (replicate (nat (max_length - int (length state_features)))
                         (np_times (np_ones [1, shape_of_input]) (- 1))
                       @ state_features))))"

text \<open>The sentinel turn of width \<open>w\<close>: a \<open>1 \<times> w\<close> array filled with \<open>-1\<close>.\<close>

definition sentinel :: "nat \<Rightarrow> ndarray" where
  "sentinel w = NDArray [1, w] (replicate w (- 1))"

text \<open>Padding twice: the second call runs on the first call's result, if there is one.\<close>

definition fill_in_features_twice :: "ndarray list \<Rightarrow> int \<Rightarrow> error + ndarray list" where
  "fill_in_features_twice xs m =
     (case fill_in_features xs m of Inl e \<Rightarrow> Inl e | Inr ys \<Rightarrow> fill_in_features ys m)"

subsection \<open>Stacking arrays\<close>

text \<open>
  \<^verbatim>\<open>np.atleast_1d\<close>, \<^verbatim>\<open>np.atleast_2d\<close> and \<^verbatim>\<open>np.expand_dims(a, 0)\<close> change the
  shape only.
\<close>

definition atleast_1d :: "ndarray \<Rightarrow> ndarray" where
  "atleast_1d a = (if shape a = [] then NDArray [1] (elems a) else a)"

definition atleast_2d :: "ndarray \<Rightarrow> ndarray" where
  "atleast_2d a =
     (case shape a of
        [] \<Rightarrow> NDArray [1, 1] (elems a)
      | [n] \<Rightarrow> NDArray [1, n] (elems a)
      | _ # _ # _ \<Rightarrow> a)"

definition expand_dims0 :: "ndarray \<Rightarrow> ndarray" where
  "expand_dims0 a = NDArray (1 # shape a) (elems a)"

text \<open>
  \<^verbatim>\<open>np.concatenate(arrays, axis)\<close>. numpy raises ValueError for no array, for a
  zero-dimensional first array and for arrays whose shapes differ off the axis, and
  AxisError for an axis out of range; a negative axis counts from the last. In row-major
  order the result is, for each index before the axis, the blocks of the arrays one after
  the other.
\<close>

definition same_off_axis :: "nat \<Rightarrow> nat list \<Rightarrow> nat list \<Rightarrow> bool" where
  "same_off_axis k s t =
     (length t = length s \<and> take k t = take k s \<and> drop (Suc k) t = drop (Suc k) s)"

definition block :: "nat \<Rightarrow> nat \<Rightarrow> ndarray \<Rightarrow> real list" where
  "block k i b =
     take (prod_list (drop k (shape b))) (drop (i * prod_list (drop k (shape b))) (elems b))"

definition concatenate :: "ndarray list \<Rightarrow> int \<Rightarrow> error + ndarray" where
  "concatenate arrays axis =
     (case arrays of
        [] \<Rightarrow> Inl ValueError
      | a # rest \<Rightarrow>
          if shape a = [] then Inl ValueError
          else if axis < - int (length (shape a)) \<or> int (length (shape a)) \<le> axis
          then Inl AxisError
          else
            (let k = nat (if axis < 0 then axis + int (length (shape a)) else axis) in
             if list_all (same_off_axis k (shape a)) (map shape rest)
             then Inr (NDArray
                         (take k (shape a) @ [sum_list (map (\<lambda>b. shape b ! k) arrays)]
                            @ drop (Suc k) (shape a))
                         (concat (map (\<lambda>i. concat (map (block k i) arrays))
                                    [0..<prod_list (take k (shape a))])))
             else Inl ValueError))"

text \<open>
  \<^verbatim>\<open>np.hstack\<close> joins along axis 0 when the first array is one-dimensional and along
  axis 1 otherwise; \<^verbatim>\<open>np.vstack\<close> joins along axis 0 after \<^verbatim>\<open>atleast_2d\<close>.
\<close>

definition hstack :: "ndarray list \<Rightarrow> error + ndarray" where
  "hstack tup =
     (let arrs = map atleast_1d tup in
      if arrs \<noteq> [] \<and> length (shape (hd arrs)) = 1 then concatenate arrs 0
      else concatenate arrs 1)"

definition vstack :: "ndarray list \<Rightarrow> error + ndarray" where
  "vstack tup = concatenate (map atleast_2d tup) 0"

subsection \<open>The feature assembler\<close>

text \<open>
  One row of the featurizer's output is one dialogue history: an object array with one
  line per turn, of which the policy reads column 2 (the intent features), column 6 (the
  previous action) and column 8 (the slots). A turn is the record of these three cells.
\<close>

record turn =
  intent :: ndarray
  previous_action :: ndarray
  slots :: ndarray

type_synonym history = "turn list"

text \<open>\<^verbatim>\<open>max(lengths)\<close> raises ValueError on the empty list.\<close>

fun py_max :: "nat list \<Rightarrow> error + nat" where
  "py_max [] = Inl ValueError"
| "py_max (x # xs) = Inr (fold max xs x)"

definition get_max_dialogue_length :: "history list \<Rightarrow> error + nat" where
  "get_max_dialogue_length X = py_max (map length X)"

text \<open>
  \<^verbatim>\<open>self.featurizer.max_history or self._get_max_dialogue_length(X)\<close>: Python's \<^verbatim>\<open>or\<close>
  takes the right operand when the left one is \<^verbatim>\<open>None\<close> or \<open>0\<close>.
\<close>

definition max_dialogue_length :: "int option \<Rightarrow> history list \<Rightarrow> error + int" where
  "max_dialogue_length max_history X =
     (if max_history \<noteq> None \<and> max_history \<noteq> Some 0 then Inr (the max_history)
      else (case get_max_dialogue_length X of Inl e \<Rightarrow> Inl e | Inr n \<Rightarrow> Inr (int n)))"

text \<open>Padding and flattening one field of one history.\<close>

definition stack_field :: "ndarray list \<Rightarrow> int \<Rightarrow> error + ndarray" where
  "stack_field state max_length =
     (case fill_in_features state max_length of
        Inl e \<Rightarrow> Inl e
      | Inr filled \<Rightarrow> hstack filled)"

text \<open>The loop of \<^verbatim>\<open>_collect_features\<close> over the rows, with the three lists it appends to.\<close>

fun collect_rows ::
  "int \<Rightarrow> history list \<Rightarrow> ndarray list \<times> ndarray list \<times> ndarray list \<Rightarrow>
   error + ndarray list \<times> ndarray list \<times> ndarray list" where
  "collect_rows max_length [] acc = Inr acc"
| "collect_rows max_length (row # rows) (X_intent, X_previous_action, X_slots) =
     (case stack_field (map intent row) max_length of
        Inl e \<Rightarrow> Inl e
      | Inr state_intent \<Rightarrow>
          (case stack_field (map previous_action row) max_length of
             Inl e \<Rightarrow> Inl e
           | Inr state_previous_action \<Rightarrow>
               (case stack_field (map (\<lambda>t. expand_dims0 (slots t)) row) max_length of
                  Inl e \<Rightarrow> Inl e
                | Inr state_slots \<Rightarrow>
                    collect_rows max_length rows
                      (X_intent @ [state_intent],
                       X_previous_action @ [state_previous_action],
                       X_slots @ [state_slots]))))"

definition collect_features ::
  "int option \<Rightarrow> history list \<Rightarrow> error + ndarray \<times> ndarray \<times> ndarray" where
  "collect_features max_history X =
     (case max_dialogue_length max_history X of
        Inl e \<Rightarrow> Inl e
      | Inr max_length \<Rightarrow>
          (case collect_rows max_length X ([], [], []) of
             Inl e \<Rightarrow> Inl e
           | Inr (X_intent, X_previous_action, X_slots) \<Rightarrow>
               (case vstack X_intent of
                  Inl e \<Rightarrow> Inl e
                | Inr Xi \<Rightarrow>
                    (case vstack X_previous_action of
                       Inl e \<Rightarrow> Inl e
                     | Inr Xa \<Rightarrow>
                         (case vstack X_slots of
                            Inl e \<Rightarrow> Inl e
                          | Inr Xs \<Rightarrow> Inr (Xi, Xa, Xs))))))"

definition preprocess_data :: "int option \<Rightarrow> history list \<Rightarrow> error + ndarray" where
  "preprocess_data max_history X =
     (case collect_features max_history X of
        Inl e \<Rightarrow> Inl e
      | Inr (X_intent, X_previous_action, X_slots) \<Rightarrow>
          concatenate [X_intent, X_previous_action, X_slots] (- 1))"

text \<open>
  The histories the assembler is written for: at least one turn and at most \<open>m\<close>; in
  every turn the intent and previous-action cells are \<open>1 \<times> w\<close> rows and the slots cell
  is a vector of \<open>w\<close> entries (the assembler itself adds the leading axis to the slots).
\<close>

definition well_shaped :: "int \<Rightarrow> nat \<Rightarrow> history \<Rightarrow> bool" where
  "well_shaped m w row =
     (row \<noteq> [] \<and> int (length row) \<le> m \<and>
      list_all (\<lambda>t. shape (intent t) = [1, w] \<and> shape (previous_action t) = [1, w] \<and>
                     shape (slots t) = [w]) row)"

text \<open>A small batch for evaluating the assembler: two histories, of two turns and of one.\<close>

definition example_turn :: "real \<Rightarrow> turn" where
  "example_turn x =
     \<lparr>intent = NDArray [1, 2] [x, 0], previous_action = NDArray [1, 2] [0, x],
      slots = NDArray [2] [x, x]\<rparr>"

definition example_batch :: "history list" where
  "example_batch = [[example_turn 1, example_turn 2], [example_turn 3]]"

subsection \<open>The label encoder\<close>

text \<open>
  sklearn's \<^verbatim>\<open>LabelEncoder\<close>, with the action indices as labels. \<^verbatim>\<open>fit\<close> stores the
  sorted distinct labels as \<^verbatim>\<open>classes_\<close>; the code of a label is its position there.
  An encoder that was never fit has no \<^verbatim>\<open>classes_\<close>. \<^verbatim>\<open>transform\<close> raises ValueError on
  a label that was not fit, \<^verbatim>\<open>inverse_transform\<close> on a code out of range.
\<close>

datatype label_encoder = LabelEncoder (fitted_classes: "int list option")

definition LabelEncoder_fit :: "int list \<Rightarrow> label_encoder" where
  "LabelEncoder_fit y = LabelEncoder (Some (sort (remdups y)))"

fun index_of :: "int \<Rightarrow> int list \<Rightarrow> nat" where
  "index_of x [] = 0"
| "index_of x (c # cs) = (if x = c then 0 else Suc (index_of x cs))"

definition LabelEncoder_transform :: "label_encoder \<Rightarrow> int list \<Rightarrow> error + nat list" where
  "LabelEncoder_transform enc y =
     (case fitted_classes enc of
        None \<Rightarrow> Inl NotFittedError
      | Some cs \<Rightarrow>
          if list_all (\<lambda>l. l \<in> set cs) y then Inr (map (\<lambda>l. index_of l cs) y)
          else Inl ValueError)"

definition LabelEncoder_inverse_transform :: "label_encoder \<Rightarrow> nat list \<Rightarrow> error + int list" where
  "LabelEncoder_inverse_transform enc codes =
     (case fitted_classes enc of
        None \<Rightarrow> Inl NotFittedError
      | Some cs \<Rightarrow>
          if list_all (\<lambda>c. c < length cs) codes then Inr (map (\<lambda>c. cs ! c) codes)
          else Inl ValueError)"

subsection \<open>Prediction post-processing\<close>

record domain =
  num_actions :: int

text \<open>
  \<^verbatim>\<open>xs[i] = v\<close> on a Python list: a negative index counts from the end, an index out of
  range raises IndexError.
\<close>

definition list_setitem :: "real list \<Rightarrow> int \<Rightarrow> real \<Rightarrow> error + real list" where
  "list_setitem xs i v =
     (if 0 \<le> i \<and> i < int (length xs) then Inr (xs[nat i := v])
      else if - int (length xs) \<le> i \<and> i < 0 then Inr (xs[nat (i + int (length xs)) := v])
      else Inl IndexError)"

text \<open>The loop \<^verbatim>\<open>for i, pred in zip(indices, yp): y_filled[i] = pred\<close>.\<close>

fun fill_predictions :: "(int \<times> real) list \<Rightarrow> real list \<Rightarrow> error + real list" where
  "fill_predictions [] y_filled = Inr y_filled"
| "fill_predictions ((i, pred) # rest) y_filled =
     (case list_setitem y_filled i pred of
        Inl e \<Rightarrow> Inl e
      | Inr y_next \<Rightarrow> fill_predictions rest y_next)"

text \<open>
  \<^verbatim>\<open>_postprocess_prediction(y_proba, domain)\<close>. \<^verbatim>\<open>y_proba\<close> is the two-dimensional
  array that \<^verbatim>\<open>predict_proba\<close> returns, given as the list of its rows; \<^verbatim>\<open>y_proba[0]\<close>
  raises IndexError when there is no row.
\<close>

definition postprocess_prediction ::
  "label_encoder \<Rightarrow> real list list \<Rightarrow> domain \<Rightarrow> error + real list" where
  "postprocess_prediction enc y_proba d =
     (case y_proba of
        [] \<Rightarrow> Inl IndexError
      | yp # _ \<Rightarrow>
          (case LabelEncoder_inverse_transform enc [0..<length yp] of
             Inl e \<Rightarrow> Inl e
           | Inr indices \<Rightarrow>
               fill_predictions (zip indices yp) (replicate (nat (num_actions d)) 0)))"

text \<open>A domain of five actions, for evaluating the post-processing.\<close>

definition example_domain :: domain where
  "example_domain = \<lparr>num_actions = 5\<rparr>"

subsection \<open>Estimators, featurizers and the policy object\<close>

text \<open>
  An sklearn estimator is its class, its hyperparameters and, once it was fit, what it
  learned. \<^verbatim>\<open>_default_model()\<close> builds an unfitted logistic regression.
\<close>

record estimator =
  est_class :: string
  est_params :: "(string \<times> string) list"
  est_fitted :: "real list option"

definition default_model :: estimator where
  "default_model =
     \<lparr>est_class = ''LogisticRegression'',
      est_params = [(''solver'', ''liblinear''), (''multi_class'', ''auto'')],
      est_fitted = None\<rparr>"

text \<open>
  The tracker featurizers: the policy asks for a \<^verbatim>\<open>MaxHistoryTrackerFeaturizer\<close>, the
  one kind with a \<^verbatim>\<open>max_history\<close> attribute (an optional int). The state featurizer
  inside is opaque to the policy.
\<close>

datatype tracker_featurizer =
    MaxHistoryTrackerFeaturizer "int option" string
  | FullDialogueTrackerFeaturizer string

text \<open>\<^verbatim>\<open>isinstance(featurizer, MaxHistoryTrackerFeaturizer)\<close>.\<close>

fun is_MaxHistoryTrackerFeaturizer :: "tracker_featurizer \<Rightarrow> bool" where
  "is_MaxHistoryTrackerFeaturizer (MaxHistoryTrackerFeaturizer _ _) = True"
| "is_MaxHistoryTrackerFeaturizer (FullDialogueTrackerFeaturizer _) = False"

text \<open>\<^verbatim>\<open>featurizer.max_history\<close>: AttributeError on a featurizer that has none.\<close>

fun featurizer_max_history :: "tracker_featurizer \<Rightarrow> error + int option" where
  "featurizer_max_history (MaxHistoryTrackerFeaturizer max_history _) = Inr max_history"
| "featurizer_max_history (FullDialogueTrackerFeaturizer _) = Inl AttributeError"

text \<open>
  The attributes of a \<^verbatim>\<open>SklearnPolicy\<close>. \<^verbatim>\<open>model\<close> may hold \<^verbatim>\<open>None\<close>; \<^verbatim>\<open>_train_params\<close>
  is the dictionary of extra keyword arguments. \<^verbatim>\<open>_pickle_params\<close> is the constant list
  \<^verbatim>\<open>["model", "cv", "param_grid", "scoring", "label_encoder"]\<close> and is not a field here.
\<close>

record policy =
  featurizer :: tracker_featurizer
  priority :: int
  model :: "estimator option"
  cv :: "int option"
  param_grid :: "(string \<times> string list) list option"
  scoring :: "string option"
  label_encoder :: label_encoder
  shuffle :: bool
  train_params :: "(string \<times> string) list"

text \<open>
  The constant is imported from \<^verbatim>\<open>rasa.core.constants\<close>, which is not among the
  sources read here; rasa defines it as 1.
\<close>

definition DEFAULT_POLICY_PRIORITY :: int where
  "DEFAULT_POLICY_PRIORITY = 1"

text \<open>
  \<^verbatim>\<open>__init__\<close>. A featurizer of another kind raises TypeError. The base class keeps the
  featurizer it is given and builds its standard one when given none; that standard
  featurizer is the parameter \<open>standard_featurizer\<close>. \<^verbatim>\<open>model or self._default_model()\<close>
  replaces a missing model by the default one, so \<^verbatim>\<open>self.model\<close> holds an estimator
  from construction on.
\<close>

definition SklearnPolicy_init ::
  "tracker_featurizer \<Rightarrow> tracker_featurizer option \<Rightarrow> int \<Rightarrow> estimator option \<Rightarrow>
   (string \<times> string list) list option \<Rightarrow> int option \<Rightarrow> string option \<Rightarrow> label_encoder \<Rightarrow>
   bool \<Rightarrow> (string \<times> string) list \<Rightarrow> error + policy" where
  "SklearnPolicy_init standard_featurizer featurizer_arg priority_arg model_arg param_grid_arg
     cv_arg scoring_arg label_encoder_arg shuffle_arg kwargs =
     (case featurizer_arg of
        Some f \<Rightarrow>
          if is_MaxHistoryTrackerFeaturizer f
          then Inr \<lparr>featurizer = f, priority = priority_arg,
                    model = Some (case model_arg of None \<Rightarrow> default_model | Some m \<Rightarrow> m),
                    cv = cv_arg, param_grid = param_grid_arg, scoring = scoring_arg,
                    label_encoder = label_encoder_arg, shuffle = shuffle_arg,
                    train_params = kwargs\<rparr>
          else Inl TypeError
      | None \<Rightarrow>
          Inr \<lparr>featurizer = standard_featurizer, priority = priority_arg,
               model = Some (case model_arg of None \<Rightarrow> default_model | Some m \<Rightarrow> m),
               cv = cv_arg, param_grid = param_grid_arg, scoring = scoring_arg,
               label_encoder = label_encoder_arg, shuffle = shuffle_arg,
               train_params = kwargs\<rparr>)"

text \<open>
  The constructor call with every argument but the featurizer and the priority left at
  its default: no model, no grid, no \<^verbatim>\<open>cv\<close>, scoring \<^verbatim>\<open>"accuracy"\<close>, an unfitted label
  encoder, \<^verbatim>\<open>shuffle=True\<close> and no extra keyword arguments.
\<close>

definition SklearnPolicy_new ::
  "tracker_featurizer \<Rightarrow> tracker_featurizer option \<Rightarrow> int \<Rightarrow> error + policy" where
  "SklearnPolicy_new standard_featurizer featurizer_arg priority_arg =
     SklearnPolicy_init standard_featurizer featurizer_arg priority_arg None None None
       (Some ''accuracy'') (LabelEncoder None) True []"

text \<open>
  Python's truth value of an attribute that holds an object or \<^verbatim>\<open>None\<close>: an sklearn
  estimator defines neither \<^verbatim>\<open>__bool__\<close> nor an empty \<^verbatim>\<open>__len__\<close>, so it is true whether
  or not it was fit; only \<^verbatim>\<open>None\<close> is false.
\<close>

fun truthy :: "estimator option \<Rightarrow> bool" where
  "truthy None = False"
| "truthy (Some _) = True"

subsection \<open>Training\<close>

text \<open>
  The \<^verbatim>\<open>GridSearchCV\<close> object as constructed, and the sklearn operations the trainer
  calls, as parameters: the joint shuffle of \<open>X\<close> and \<open>y\<close>, \<^verbatim>\<open>set_params\<close> on the valid
  keyword arguments, \<^verbatim>\<open>clone(model).fit(Xt, yt)\<close>, and \<^verbatim>\<open>search.fit(X, y)\<close>, which
  gives \<^verbatim>\<open>best_estimator_\<close> and \<^verbatim>\<open>best_score_\<close>.
\<close>

record grid_search_cv =
  gs_estimator :: estimator
  gs_param_grid :: "(string \<times> string list) list"
  gs_cv :: "int option"
  gs_scoring :: string
  gs_verbose :: int

record sklearn =
  sklearn_shuffle :: "history list \<times> int list \<Rightarrow> history list \<times> int list"
  set_params :: "estimator \<Rightarrow> (string \<times> string) list \<Rightarrow> estimator"
  clone_fit :: "estimator \<Rightarrow> ndarray \<Rightarrow> nat list \<Rightarrow> error + estimator"
  search_fit :: "grid_search_cv \<Rightarrow> ndarray \<Rightarrow> nat list \<Rightarrow> error + estimator \<times> real"

text \<open>\<^verbatim>\<open>GridSearchCV(model, param_grid=param_grid, cv=self.cv, scoring="accuracy", verbose=1)\<close>.\<close>

definition GridSearchCV ::
  "policy \<Rightarrow> estimator \<Rightarrow> (string \<times> string list) list \<Rightarrow> grid_search_cv" where
  "GridSearchCV self m grid =
     \<lparr>gs_estimator = m, gs_param_grid = grid, gs_cv = cv self, gs_scoring = ''accuracy'',
      gs_verbose = 1\<rparr>"

definition search_and_score ::
  "sklearn \<Rightarrow> policy \<Rightarrow> estimator \<Rightarrow> ndarray \<Rightarrow> nat list \<Rightarrow> (string \<times> string list) list \<Rightarrow>
   error + estimator \<times> real" where
  "search_and_score sk self m X y grid = search_fit sk (GridSearchCV self m grid) X y"

text \<open>\<^verbatim>\<open>d.update(kwargs)\<close> on a dictionary kept as an association list.\<close>

definition dict_update ::
  "(string \<times> string) list \<Rightarrow> (string \<times> string) list \<Rightarrow> (string \<times> string) list" where
  "dict_update d kwargs = kwargs @ filter (\<lambda>kv. fst kv \<notin> set (map fst kwargs)) d"

text \<open>\<^verbatim>\<open>self._preprocess_data(X)\<close>, which reads \<^verbatim>\<open>self.featurizer.max_history\<close>.\<close>

definition policy_preprocess_data :: "policy \<Rightarrow> history list \<Rightarrow> error + ndarray" where
  "policy_preprocess_data self X =
     (case featurizer_max_history (featurizer self) of
        Inl e \<Rightarrow> Inl e
      | Inr max_history \<Rightarrow> preprocess_data max_history X)"

text \<open>
  \<^verbatim>\<open>train\<close>, from the featurized training data \<open>(X, y)\<close> on. The result is the policy
  after training and the cross-validation score, if one was computed. An exception
  leaves no result.
\<close>

definition train ::
  "sklearn \<Rightarrow> policy \<Rightarrow> history list \<times> int list \<Rightarrow> (string \<times> string) list \<Rightarrow>
   error + policy \<times> real option" where
  "train sk self featurized kwargs =
     (let data = (if shuffle self then sklearn_shuffle sk featurized else featurized);
          X = fst data;
          y = snd data;
          params = dict_update (train_params self) kwargs
      in
        (case model self of
           None \<Rightarrow> Inl AttributeError
         | Some m0 \<Rightarrow>
             (let m = set_params sk m0 params;
                  enc = LabelEncoder_fit y
              in
                (case policy_preprocess_data self X of
                   Inl e \<Rightarrow> Inl e
                 | Inr Xt \<Rightarrow>
                     (case LabelEncoder_transform enc y of
                        Inl e \<Rightarrow> Inl e
                      | Inr yt \<Rightarrow>
                          (if cv self = None
                           then
                             (case clone_fit sk m Xt yt of
                                Inl e \<Rightarrow> Inl e
                              | Inr fitted \<Rightarrow>
                                  Inr (self\<lparr>train_params := params, label_encoder := enc,
                                             model := Some fitted\<rparr>, None))
                           else
                             (case search_and_score sk self m Xt yt
                                     (case param_grid self of None \<Rightarrow> [] | Some g \<Rightarrow> g) of
                                Inl e \<Rightarrow> Inl e
                              | Inr (best, score) \<Rightarrow>
                                  Inr (self\<lparr>train_params := params, label_encoder := enc,
                                             model := Some best\<rparr>, Some score))))))))"

subsection \<open>Prediction\<close>

text \<open>
  \<^verbatim>\<open>predict_action_probabilities\<close>. The featurizer's \<^verbatim>\<open>create_X\<close> and the model's
  \<^verbatim>\<open>predict_proba\<close> are parameters.
\<close>

definition predict_action_probabilities ::
  "(tracker_featurizer \<Rightarrow> 'tracker list \<Rightarrow> domain \<Rightarrow> 'interpreter \<Rightarrow> error + history list) \<Rightarrow>
   (estimator \<Rightarrow> ndarray \<Rightarrow> error + real list list) \<Rightarrow>
   policy \<Rightarrow> 'tracker \<Rightarrow> domain \<Rightarrow> 'interpreter \<Rightarrow> error + real list" where
  "predict_action_probabilities create_X predict_proba self tracker d interpreter =
     (case create_X (featurizer self) [tracker] d interpreter of
        Inl e \<Rightarrow> Inl e
      | Inr X \<Rightarrow>
          (case policy_preprocess_data self X of
             Inl e \<Rightarrow> Inl e
           | Inr Xt \<Rightarrow>
               (case model self of
                  None \<Rightarrow> Inl AttributeError
                | Some m \<Rightarrow>
                    (case predict_proba m Xt of
                       Inl e \<Rightarrow> Inl e
                     | Inr y_proba \<Rightarrow> postprocess_prediction (label_encoder self) y_proba d))))"

subsection \<open>Persistence\<close>

text \<open>
  \<^verbatim>\<open>_state\<close>: the attributes named in \<^verbatim>\<open>_pickle_params\<close>.
\<close>

record pickled_state =
  st_model :: "estimator option"
  st_cv :: "int option"
  st_param_grid :: "(string \<times> string list) list option"
  st_scoring :: "string option"
  st_label_encoder :: label_encoder

definition state :: "policy \<Rightarrow> pickled_state" where
  "state self =
     \<lparr>st_model = model self, st_cv = cv self, st_param_grid = param_grid self,
      st_scoring = scoring self, st_label_encoder = label_encoder self\<rparr>"

text \<open>
  Modelled from the spec: the file helpers of \<^verbatim>\<open>rasa.utils.io\<close>, the featurizer's own
  \<^verbatim>\<open>persist\<close> and \<^verbatim>\<open>load\<close> and \<^verbatim>\<open>raise_warning\<close> are not among the sources. The
  persisted artifacts are a featurizer file, a metadata record keyed by \<^verbatim>\<open>priority\<close> and
  an opaque blob holding the pickled state; a file holds what was written to it, and a
  later write to the same name replaces the earlier one. The featurizer's \<^verbatim>\<open>persist\<close>
  creates the directory and writes the featurizer there; its \<^verbatim>\<open>load\<close> gives the
  featurizer back, or \<^verbatim>\<open>None\<close> when the directory holds none. Reading a file that
  does not exist raises FileNotFoundError, reading one of another format ValueError. A
  warning is appended to the warnings issued so far.
\<close>

datatype file_content =
    FeaturizerFile tracker_featurizer
  | JsonFile "(string \<times> int) list"
  | PickleFile pickled_state

record world =
  directories :: "string list"
  files :: "(string \<times> file_content) list"
  warnings :: "string list"

definition path_join :: "string \<Rightarrow> string \<Rightarrow> string" where
  "path_join path name = path @ ''/'' @ name"

definition path_exists :: "world \<Rightarrow> string \<Rightarrow> bool" where
  "path_exists w path = (path \<in> set (directories w) \<or> path \<in> set (map fst (files w)))"

definition write_file :: "string \<Rightarrow> file_content \<Rightarrow> world \<Rightarrow> world" where
  "write_file name content w = w\<lparr>files := (name, content) # files w\<rparr>"

definition featurizer_persist :: "tracker_featurizer \<Rightarrow> string \<Rightarrow> world \<Rightarrow> world" where
  "featurizer_persist f path w =
     write_file (path_join path ''featurizer.json'') (FeaturizerFile f)
       (w\<lparr>directories := path # directories w\<rparr>)"

definition TrackerFeaturizer_load :: "string \<Rightarrow> world \<Rightarrow> tracker_featurizer option" where
  "TrackerFeaturizer_load path w =
     (case map_of (files w) (path_join path ''featurizer.json'') of
        Some (FeaturizerFile f) \<Rightarrow> Some f
      | _ \<Rightarrow> None)"

definition dump_obj_as_json_to_file :: "string \<Rightarrow> (string \<times> int) list \<Rightarrow> world \<Rightarrow> world" where
  "dump_obj_as_json_to_file name obj w = write_file name (JsonFile obj) w"

definition read_json :: "string \<Rightarrow> world \<Rightarrow> error + (string \<times> int) list" where
  "read_json name w =
     (case map_of (files w) name of
        None \<Rightarrow> Inl FileNotFoundError
      | Some (JsonFile obj) \<Rightarrow> Inr obj
      | Some _ \<Rightarrow> Inl ValueError)"

definition pickle_dump :: "string \<Rightarrow> pickled_state \<Rightarrow> world \<Rightarrow> world" where
  "pickle_dump name st w = write_file name (PickleFile st) w"

definition pickle_load :: "string \<Rightarrow> world \<Rightarrow> error + pickled_state" where
  "pickle_load name w =
     (case map_of (files w) name of
        None \<Rightarrow> Inl FileNotFoundError
      | Some (PickleFile st) \<Rightarrow> Inr st
      | Some _ \<Rightarrow> Inl ValueError)"

definition raise_warning :: "string \<Rightarrow> world \<Rightarrow> world" where
  "raise_warning message w = w\<lparr>warnings := warnings w @ [message]\<rparr>"

text \<open>\<^verbatim>\<open>persist(path)\<close>: the branch is taken on the truth value of \<^verbatim>\<open>self.model\<close>.\<close>

definition persist :: "policy \<Rightarrow> string \<Rightarrow> world \<Rightarrow> world" where
  "persist self path w =
     (if truthy (model self)
      then
        pickle_dump (path_join path ''sklearn_model.pkl'') (state self)
          (dump_obj_as_json_to_file (path_join path ''sklearn_policy.json'')
             [(''priority'', priority self)]
             (featurizer_persist (featurizer self) path w))
      else
        raise_warning
          ''Persist called without a trained model present. Nothing to persist then!'' w)"

text \<open>
  \<^verbatim>\<open>load(path)\<close>: OSError when the path does not exist; the \<^verbatim>\<open>assert isinstance\<close> on
  the loaded featurizer raises AssertionError; \<^verbatim>\<open>meta["priority"]\<close> raises KeyError on a
  record without the key; \<^verbatim>\<open>vars(policy).update(state)\<close> overwrites the pickled
  attributes of the new policy.
\<close>

definition load :: "tracker_featurizer \<Rightarrow> string \<Rightarrow> world \<Rightarrow> error + policy" where
  "load standard_featurizer path w =
     (if \<not> path_exists w path then Inl OSError
      else
        (case TrackerFeaturizer_load path w of
           None \<Rightarrow> Inl AssertionError
         | Some f \<Rightarrow>
             if \<not> is_MaxHistoryTrackerFeaturizer f then Inl AssertionError
             else
               (case read_json (path_join path ''sklearn_policy.json'') w of
                  Inl e \<Rightarrow> Inl e
                | Inr meta \<Rightarrow>
                    (case map_of meta ''priority'' of
                       None \<Rightarrow> Inl KeyError
                     | Some meta_priority \<Rightarrow>
                         (case SklearnPolicy_new standard_featurizer (Some f) meta_priority of
                            Inl e \<Rightarrow> Inl e
                          | Inr new_policy \<Rightarrow>
                              (case pickle_load (path_join path ''sklearn_model.pkl'') w of
                                 Inl e \<Rightarrow> Inl e
                               | Inr st \<Rightarrow>
                                   Inr (new_policy
                                          \<lparr>model := st_model st, cv := st_cv st,
                                           param_grid := st_param_grid st,
                                           scoring := st_scoring st,
                                           label_encoder := st_label_encoder st\<rparr>)))))))"

text \<open>A trained policy and an empty file system, for evaluating persist and load.\<close>

definition example_featurizer :: tracker_featurizer where
  "example_featurizer = MaxHistoryTrackerFeaturizer (Some 3) ''BinarySingleStateFeaturizer''"

definition example_policy :: policy where
  "example_policy =
     \<lparr>featurizer = example_featurizer, priority = 7,
      model = Some \<lparr>est_class = ''LogisticRegression'', est_params = [(''C'', ''10'')],
                    est_fitted = Some [1 / 2, 1 / 4]\<rparr>,
      cv = Some 3, param_grid = None, scoring = Some ''f1_macro'',
      label_encoder = LabelEncoder_fit [3, 1, 3], shuffle = False,
      train_params = [(''C'', ''10'')]\<rparr>"

definition empty_world :: world where
  "empty_world = \<lparr>directories = [], files = [], warnings = []\<rparr>"

section \<open>Properties\<close>

lemma np_times_ones: "np_times (np_ones [1, w]) (- 1) = sentinel w"
  by (simp add: np_times_def np_ones_def sentinel_def)

lemma np_times_ones_Suc: "np_times (np_ones [Suc 0, w]) (- 1) = sentinel w"
  using np_times_ones [of w] by simp

lemma shape_last_Inr: "shape a \<noteq> [] \<Longrightarrow> shape_last a = Inr (last (shape a))"
  by (cases "shape a") (simp_all add: shape_last_def)

lemma fill_in_features_eq:
  "int (length xs) = m \<Longrightarrow> fill_in_features xs m = Inr xs"
  by (simp add: fill_in_features_def)

lemma fill_in_features_neq:
  assumes "xs \<noteq> []" and "shape (hd xs) \<noteq> []" and "int (length xs) \<noteq> m"
  shows "fill_in_features xs m =
           Inr (replicate (nat (m - int (length xs))) (sentinel (last (shape (hd xs)))) @ xs)"
proof -
  obtain x rest where xs: "xs = x # rest"
    using assms(1) by (cases xs) auto
  have "shape_last x = Inr (last (shape x))"
    using assms(2) xs by (simp add: shape_last_Inr)
  then show ?thesis
    using assms(3) xs by (simp add: fill_in_features_def np_times_ones_Suc)
qed

text \<open>
  C3 as stated fails. The sentinel is always built as a \<open>1 \<times> w\<close> array, whatever the
  shape of the first real vector: for a first vector of shape \<open>(2)\<close> the sentinels have
  shape \<open>(1, 2)\<close>, which is not the shape of that vector. And a first array without any
  axis has no width: reading \<^verbatim>\<open>shape[-1]\<close> raises IndexError instead of padding.
\<close>

theorem fill_in_features_sentinel_shape:
  "fill_in_features [NDArray [2] [3, 4]] 3 =
     Inr [NDArray [1, 2] [- 1, - 1], NDArray [1, 2] [- 1, - 1], NDArray [2] [3, 4]] \<and>
   shape (NDArray [1, 2] [- 1, - 1]) \<noteq> shape (NDArray [2] [3, 4]) \<and>
   fill_in_features [NDArray [] [5]] 2 = Inl IndexError"
  by (simp add: fill_in_features_def shape_last_def np_times_def np_ones_def eval_nat_numeral)

text \<open>
  C3, amended. For a non-empty list of per-turn feature vectors whose first array has at
  least one axis, and any target \<open>max_length\<close>: a list shorter than \<open>max_length\<close> is
  returned with \<open>max_length - len\<close> sentinels in front, each an array of shape \<open>(1, w)\<close>
  filled with \<open>-1\<close>, where \<open>w\<close> is the width (last axis) of the first real vector; that
  is the shape of the first real vector when it is itself a \<open>1 \<times> w\<close> row. The result has
  exactly \<open>max_length\<close> entries and the genuine turns are its tail, in order. A list that
  has \<open>max_length\<close> entries or more is returned unchanged.
\<close>

theorem fill_in_features_pads:
  assumes "state_features \<noteq> []" and "shape (hd state_features) \<noteq> []"
  shows "(int (length state_features) < max_length \<longrightarrow>
            (\<exists>padded.
               fill_in_features state_features max_length = Inr padded \<and>
               int (length padded) = max_length \<and>
               padded =
                 replicate (nat (max_length - int (length state_features)))
                   (sentinel (last (shape (hd state_features)))) @ state_features \<and>
               drop (nat (max_length - int (length state_features))) padded = state_features \<and>
               list_all (\<lambda>s. shape s = [1, last (shape (hd state_features))] \<and>
                              elems s = replicate (last (shape (hd state_features))) (- 1))
                 (take (nat (max_length - int (length state_features))) padded) \<and>
               (shape (hd state_features) = [1, last (shape (hd state_features))] \<longrightarrow>
                  list_all (\<lambda>s. shape s = shape (hd state_features))
                    (take (nat (max_length - int (length state_features))) padded)))) \<and>
         (max_length \<le> int (length state_features) \<longrightarrow>
            fill_in_features state_features max_length = Inr state_features)"
proof (intro conjI impI)
  assume short: "int (length state_features) < max_length"
  let ?k = "nat (max_length - int (length state_features))"
  let ?w = "last (shape (hd state_features))"
  let ?p = "replicate ?k (sentinel ?w) @ state_features"
  have run: "fill_in_features state_features max_length = Inr ?p"
    using assms short by (simp add: fill_in_features_neq)
  have len: "int (length ?p) = max_length"
    using short by simp
  have tail: "drop ?k ?p = state_features"
    by simp
  have sent: "list_all (\<lambda>s. shape s = [1, ?w] \<and> elems s = replicate ?w (- 1)) (take ?k ?p)"
    by (simp add: list_all_iff sentinel_def)
  have shp: "shape (hd state_features) = [1, ?w] \<longrightarrow>
               list_all (\<lambda>s. shape s = shape (hd state_features)) (take ?k ?p)"
    by (simp add: list_all_iff sentinel_def)
  show "\<exists>padded.
          fill_in_features state_features max_length = Inr padded \<and>
          int (length padded) = max_length \<and>
          padded = ?p \<and>
          drop ?k padded = state_features \<and>
          list_all (\<lambda>s. shape s = [1, ?w] \<and> elems s = replicate ?w (- 1)) (take ?k padded) \<and>
          (shape (hd state_features) = [1, ?w] \<longrightarrow>
             list_all (\<lambda>s. shape s = shape (hd state_features)) (take ?k padded))"
    using run len tail sent shp by blast
next
  assume long: "max_length \<le> int (length state_features)"
  show "fill_in_features state_features max_length = Inr state_features"
  proof (cases "int (length state_features) = max_length")
    case True
    then show ?thesis by (simp add: fill_in_features_eq)
  next
    case False
    with long have "nat (max_length - int (length state_features)) = 0"
      by simp
    with False assms show ?thesis
      by (simp add: fill_in_features_neq)
  qed
qed

theorem fill_in_features_pads_witness:
  "[NDArray [1, 2] [3, 4]] \<noteq> [] \<and> shape (hd [NDArray [1, 2] [3, 4]]) \<noteq> [] \<and>
   fill_in_features [NDArray [1, 2] [3, 4]] 3 =
     Inr [sentinel 2, sentinel 2, NDArray [1, 2] [3, 4]] \<and>
   fill_in_features [NDArray [1, 2] [3, 4], NDArray [1, 2] [5, 6]] 1 =
     Inr [NDArray [1, 2] [3, 4], NDArray [1, 2] [5, 6]]"
  using fill_in_features_pads [of "[NDArray [1, 2] [3, 4]]" 3]
    fill_in_features_pads [of "[NDArray [1, 2] [3, 4], NDArray [1, 2] [5, 6]]" 1]
  by (simp add: eval_nat_numeral)

text \<open>
  C4 as stated fails: with \<open>max_length = 0\<close> the empty list already has the target
  length, the first branch returns it and nothing is raised.
\<close>

theorem fill_in_features_empty_zero: "fill_in_features [] 0 = Inr []"
  by (simp add: fill_in_features_def)

text \<open>
  C4, amended. On the empty list the padder raises for every \<open>max_length\<close> other than
  \<open>0\<close>: reading \<^verbatim>\<open>state_features[0]\<close> raises IndexError (the code has no exception
  class of its own for this), and no list is returned. For \<open>max_length = 0\<close> the empty
  list is returned unchanged.
\<close>

theorem fill_in_features_empty:
  "(max_length \<noteq> 0 \<longrightarrow> fill_in_features [] max_length = Inl IndexError) \<and>
   (max_length = 0 \<longrightarrow> fill_in_features [] max_length = Inr [])"
  by (simp add: fill_in_features_def)

theorem fill_in_features_empty_witness:
  "(3::int) \<noteq> 0 \<and> fill_in_features [] 3 = Inl IndexError"
  using fill_in_features_empty [of 3] by simp

lemma fill_in_features_scalar:
  assumes "xs \<noteq> []" and "shape (hd xs) = []" and "int (length xs) \<noteq> m"
  shows "fill_in_features xs m = Inl IndexError"
proof -
  obtain x rest where xs: "xs = x # rest"
    using assms(1) by (cases xs) auto
  have "shape_last x = Inl IndexError"
    using assms(2) xs by (simp add: shape_last_def)
  then show ?thesis
    using assms(3) xs by (simp add: fill_in_features_def)
qed

text \<open>
  C9. A non-empty list that already has \<open>max_length\<close> entries is returned unchanged;
  for a non-empty list of at most \<open>max_length\<close> entries, padding twice with the same
  \<open>max_length\<close> gives what padding once gives, and when the first vector has a width
  both calls return the same padded list.
\<close>

theorem fill_in_features_idempotent:
  assumes "xs \<noteq> []"
  shows "(int (length xs) = m \<longrightarrow> fill_in_features xs m = Inr xs) \<and>
         (int (length xs) \<le> m \<longrightarrow>
            fill_in_features_twice xs m = fill_in_features xs m \<and>
            (shape (hd xs) \<noteq> [] \<longrightarrow>
               (\<exists>ys. fill_in_features xs m = Inr ys \<and> fill_in_features ys m = Inr ys)))"
proof (intro conjI impI)
  assume "int (length xs) = m"
  then show "fill_in_features xs m = Inr xs"
    by (rule fill_in_features_eq)
next
  assume le: "int (length xs) \<le> m"
  show "fill_in_features_twice xs m = fill_in_features xs m"
  proof (cases "int (length xs) = m")
    case True
    then show ?thesis
      by (simp add: fill_in_features_twice_def fill_in_features_eq)
  next
    case False
    show ?thesis
    proof (cases "shape (hd xs) = []")
      case True
      with assms False have "fill_in_features xs m = Inl IndexError"
        by (simp add: fill_in_features_scalar)
      then show ?thesis
        by (simp add: fill_in_features_twice_def)
    next
      case vec: False
      let ?ys = "replicate (nat (m - int (length xs))) (sentinel (last (shape (hd xs)))) @ xs"
      have once: "fill_in_features xs m = Inr ?ys"
        using assms vec False by (simp add: fill_in_features_neq)
      have "int (length ?ys) = m"
        using le by simp
      then have "fill_in_features ?ys m = Inr ?ys"
        by (rule fill_in_features_eq)
      with once show ?thesis
        by (simp add: fill_in_features_twice_def)
    qed
  qed
next
  assume le: "int (length xs) \<le> m" and vec: "shape (hd xs) \<noteq> []"
  show "\<exists>ys. fill_in_features xs m = Inr ys \<and> fill_in_features ys m = Inr ys"
  proof (cases "int (length xs) = m")
    case True
    then have "fill_in_features xs m = Inr xs"
      by (rule fill_in_features_eq)
    then show ?thesis by blast
  next
    case False
    let ?ys = "replicate (nat (m - int (length xs))) (sentinel (last (shape (hd xs)))) @ xs"
    have once: "fill_in_features xs m = Inr ?ys"
      using assms vec False by (simp add: fill_in_features_neq)
    have "int (length ?ys) = m"
      using le by simp
    then have "fill_in_features ?ys m = Inr ?ys"
      by (rule fill_in_features_eq)
    with once show ?thesis by blast
  qed
qed

theorem fill_in_features_idempotent_witness:
  "fill_in_features [NDArray [1, 2] [3, 4]] 1 = Inr [NDArray [1, 2] [3, 4]] \<and>
   fill_in_features_twice [NDArray [1, 2] [3, 4]] 3 = fill_in_features [NDArray [1, 2] [3, 4]] 3 \<and>
   fill_in_features [NDArray [1, 2] [3, 4]] 3 =
     Inr [sentinel 2, sentinel 2, NDArray [1, 2] [3, 4]] \<and>
   fill_in_features [sentinel 2, sentinel 2, NDArray [1, 2] [3, 4]] 3 =
     Inr [sentinel 2, sentinel 2, NDArray [1, 2] [3, 4]]"
  using fill_in_features_idempotent [of "[NDArray [1, 2] [3, 4]]" 1]
    fill_in_features_idempotent [of "[NDArray [1, 2] [3, 4]]" 3]
    fill_in_features_neq [of "[NDArray [1, 2] [3, 4]]" 3]
  by (auto simp add: eval_nat_numeral fill_in_features_eq)

lemma sum_list_const_shape:
  "list_all (\<lambda>b. shape b = sh) arrays \<Longrightarrow>
     sum_list (map (\<lambda>b. shape b ! k) arrays) = length arrays * sh ! k"
  by (induction arrays) simp_all

lemma same_off_axis_refl: "same_off_axis k sh sh"
  by (simp add: same_off_axis_def)

lemma list_all_same_off_axis:
  "list_all (\<lambda>b. shape b = sh) rest \<Longrightarrow> list_all (same_off_axis k sh) (map shape rest)"
  by (induction rest) (simp_all add: same_off_axis_refl)

lemma concatenate_shape:
  assumes "arrays \<noteq> []" and "list_all (\<lambda>b. shape b = sh) arrays" and "k < length sh"
  shows "\<exists>d. concatenate arrays (int k) = Inr (NDArray (sh[k := length arrays * sh ! k]) d)"
proof -
  obtain a rest where arrays: "arrays = a # rest"
    using assms(1) by (cases arrays) auto
  have sh: "shape a = sh" and rest: "list_all (\<lambda>b. shape b = sh) rest"
    using assms(2) arrays by simp_all
  have ne: "sh \<noteq> []"
    using assms(3) by auto
  have ok: "list_all (same_off_axis k sh) (map shape rest)"
    using rest by (rule list_all_same_off_axis)
  have total: "sum_list (map (\<lambda>b. shape b ! k) arrays) = length arrays * sh ! k"
    using assms(2) by (rule sum_list_const_shape)
  have upd: "take k sh @ [length arrays * sh ! k] @ drop (Suc k) sh = sh[k := length arrays * sh ! k]"
    using assms(3) by (simp add: upd_conv_take_nth_drop)
  have ax: "\<not> (int k < - int (length sh) \<or> int (length sh) \<le> int k)"
    using assms(3) by simp
  show ?thesis
    unfolding concatenate_def arrays
    using sh ne ok ax total upd arrays assms(3)
    by (simp add: Let_def)
qed

lemma concatenate_last_axis:
  assumes "arrays \<noteq> []" and "shape (hd arrays) \<noteq> []"
  shows "concatenate arrays (- 1) = concatenate arrays (int (length (shape (hd arrays))) - 1)"
proof -
  obtain a rest where arrays: "arrays = a # rest"
    using assms(1) by (cases arrays) auto
  have "shape a \<noteq> []"
    using assms(2) arrays by simp
  then show ?thesis
    unfolding concatenate_def arrays by (cases "shape a") (simp_all add: Let_def)
qed

lemma map_atleast_1d_id:
  "list_all (\<lambda>b. shape b = sh) xs \<Longrightarrow> sh \<noteq> [] \<Longrightarrow> map atleast_1d xs = xs"
  by (induction xs) (simp_all add: atleast_1d_def)

lemma map_atleast_2d_id:
  "list_all (\<lambda>b. shape b = [r, c]) xs \<Longrightarrow> map atleast_2d xs = xs"
  by (induction xs) (simp_all add: atleast_2d_def)

lemma hstack_rows:
  assumes "xs \<noteq> []" and "list_all (\<lambda>b. shape b = [1, w]) xs"
  shows "\<exists>d. hstack xs = Inr (NDArray [1, length xs * w] d)"
proof -
  have same: "map atleast_1d xs = xs"
    using assms(2) by (rule map_atleast_1d_id) simp
  have "shape (hd xs) = [1, w]"
    using assms by (cases xs) simp_all
  then have h: "hstack xs = concatenate xs (int 1)"
    using same assms(1) by (simp add: hstack_def)
  have "\<exists>d. concatenate xs (int 1) = Inr (NDArray ([1, w][1 := length xs * [1, w] ! 1]) d)"
    using assms by (intro concatenate_shape) simp_all
  then show ?thesis
    using h by simp
qed

lemma vstack_rows:
  assumes "xs \<noteq> []" and "list_all (\<lambda>b. shape b = [1, c]) xs"
  shows "\<exists>d. vstack xs = Inr (NDArray [length xs, c] d)"
proof -
  have same: "map atleast_2d xs = xs"
    using assms(2) by (rule map_atleast_2d_id)
  have "\<exists>d. concatenate xs (int 0) = Inr (NDArray ([1, c][0 := length xs * [1, c] ! 0]) d)"
    using assms by (intro concatenate_shape) simp_all
  then show ?thesis
    using same by (simp add: vstack_def)
qed

lemma fill_in_features_rows:
  assumes "xs \<noteq> []" and "list_all (\<lambda>b. shape b = [1, w]) xs" and "int (length xs) \<le> m"
  shows "\<exists>ys. fill_in_features xs m = Inr ys \<and> length ys = nat m \<and>
               list_all (\<lambda>b. shape b = [1, w]) ys"
proof (cases "int (length xs) = m")
  case True
  then have "fill_in_features xs m = Inr xs"
    by (rule fill_in_features_eq)
  moreover have "length xs = nat m"
    using True by auto
  ultimately show ?thesis
    using assms(2) by blast
next
  case False
  have hd: "shape (hd xs) = [1, w]"
    using assms(1,2) by (cases xs) simp_all
  let ?ys = "replicate (nat (m - int (length xs))) (sentinel w) @ xs"
  have "fill_in_features xs m = Inr ?ys"
    using fill_in_features_neq [OF assms(1) _ False] hd by simp
  moreover have "length ?ys = nat m"
    using assms(3) by simp
  moreover have "list_all (\<lambda>b. shape b = [1, w]) ?ys"
    using assms(2) by (auto simp add: list_all_iff sentinel_def)
  ultimately show ?thesis
    by blast
qed

lemma stack_field_rows:
  assumes "xs \<noteq> []" and "list_all (\<lambda>b. shape b = [1, w]) xs" and "int (length xs) \<le> m"
  shows "\<exists>d. stack_field xs m = Inr (NDArray [1, nat m * w] d)"
proof -
  obtain ys where ys: "fill_in_features xs m = Inr ys" "length ys = nat m"
      "list_all (\<lambda>b. shape b = [1, w]) ys"
    using fill_in_features_rows [OF assms] by blast
  have "0 < nat m"
    using assms(1,3) by (cases xs) simp_all
  then have "ys \<noteq> []"
    using ys(2) by auto
  then obtain d where "hstack ys = Inr (NDArray [1, length ys * w] d)"
    using hstack_rows ys(3) by blast
  then show ?thesis
    using ys(1,2) by (simp add: stack_field_def)
qed

lemma well_shaped_fields:
  assumes "well_shaped m w row"
  shows "\<exists>d1 d2 d3.
           stack_field (map intent row) m = Inr (NDArray [1, nat m * w] d1) \<and>
           stack_field (map previous_action row) m = Inr (NDArray [1, nat m * w] d2) \<and>
           stack_field (map (\<lambda>t. expand_dims0 (slots t)) row) m = Inr (NDArray [1, nat m * w] d3)"
proof -
  have ne: "row \<noteq> []" and len: "int (length row) \<le> m"
    using assms by (simp_all add: well_shaped_def)
  have a: "list_all (\<lambda>b. shape b = [1, w]) (map intent row)"
    using assms by (simp add: well_shaped_def list_all_iff)
  have b: "list_all (\<lambda>b. shape b = [1, w]) (map previous_action row)"
    using assms by (simp add: well_shaped_def list_all_iff)
  have c: "list_all (\<lambda>b. shape b = [1, w]) (map (\<lambda>t. expand_dims0 (slots t)) row)"
    using assms by (simp add: well_shaped_def list_all_iff expand_dims0_def)
  have "\<exists>d. stack_field (map intent row) m = Inr (NDArray [1, nat m * w] d)"
    using ne a len by (intro stack_field_rows) simp_all
  moreover have "\<exists>d. stack_field (map previous_action row) m = Inr (NDArray [1, nat m * w] d)"
    using ne b len by (intro stack_field_rows) simp_all
  moreover have "\<exists>d. stack_field (map (\<lambda>t. expand_dims0 (slots t)) row) m =
                       Inr (NDArray [1, nat m * w] d)"
    using ne c len by (intro stack_field_rows) simp_all
  ultimately show ?thesis
    by blast
qed

lemma collect_rows_shape:
  assumes "list_all (well_shaped m w) rows"
  shows "\<exists>ri ra rs.
           collect_rows m rows (Xi, Xa, Xs) = Inr (Xi @ ri, Xa @ ra, Xs @ rs) \<and>
           length ri = length rows \<and> length ra = length rows \<and> length rs = length rows \<and>
           list_all (\<lambda>b. shape b = [1, nat m * w]) ri \<and>
           list_all (\<lambda>b. shape b = [1, nat m * w]) ra \<and>
           list_all (\<lambda>b. shape b = [1, nat m * w]) rs"
  using assms
proof (induction rows arbitrary: Xi Xa Xs)
  case Nil
  show ?case
    by (rule exI [of _ "[]"], rule exI [of _ "[]"], rule exI [of _ "[]"]) simp
next
  case (Cons row rows)
  from Cons.prems have row: "well_shaped m w row" and rest: "list_all (well_shaped m w) rows"
    by simp_all
  obtain d1 d2 d3 where
    f1: "stack_field (map intent row) m = Inr (NDArray [1, nat m * w] d1)" and
    f2: "stack_field (map previous_action row) m = Inr (NDArray [1, nat m * w] d2)" and
    f3: "stack_field (map (\<lambda>t. expand_dims0 (slots t)) row) m = Inr (NDArray [1, nat m * w] d3)"
    using well_shaped_fields [OF row] by blast
  let ?i = "NDArray [1, nat m * w] d1" and ?a = "NDArray [1, nat m * w] d2"
    and ?s = "NDArray [1, nat m * w] d3"
  obtain ri ra rs where
    run: "collect_rows m rows (Xi @ [?i], Xa @ [?a], Xs @ [?s]) =
            Inr ((Xi @ [?i]) @ ri, (Xa @ [?a]) @ ra, (Xs @ [?s]) @ rs)" and
    lens: "length ri = length rows" "length ra = length rows" "length rs = length rows" and
    shapes: "list_all (\<lambda>b. shape b = [1, nat m * w]) ri"
      "list_all (\<lambda>b. shape b = [1, nat m * w]) ra"
      "list_all (\<lambda>b. shape b = [1, nat m * w]) rs"
    using Cons.IH [OF rest, of "Xi @ [?i]" "Xa @ [?a]" "Xs @ [?s]"] by blast
  have "collect_rows m (row # rows) (Xi, Xa, Xs) = Inr (Xi @ ?i # ri, Xa @ ?a # ra, Xs @ ?s # rs)"
    using f1 f2 f3 run by simp
  then show ?case
    using lens shapes
    by (intro exI [of _ "?i # ri"] exI [of _ "?a # ra"] exI [of _ "?s # rs"]) simp
qed

lemma py_max_Max: "xs \<noteq> [] \<Longrightarrow> py_max xs = Inr (Max (set xs))"
  by (cases xs) (simp_all add: Max.set_eq_fold [symmetric])

lemma concatenate_three:
  assumes "shape a = [n, c]" and "shape b = [n, c]" and "shape s = [n, c]"
  shows "\<exists>d. concatenate [a, b, s] (- 1) = Inr (NDArray [n, 3 * c] d)"
proof -
  have "concatenate [a, b, s] (- 1) = concatenate [a, b, s] (int 1)"
    using concatenate_last_axis [of "[a, b, s]"] assms(1) by simp
  moreover have "\<exists>d. concatenate [a, b, s] (int 1) =
                      Inr (NDArray ([n, c][1 := length [a, b, s] * [n, c] ! 1]) d)"
    using assms by (intro concatenate_shape) simp_all
  ultimately show ?thesis
    by (simp add: eval_nat_numeral)
qed

text \<open>
  C7 as stated fails. A configured maximum history of \<open>0\<close> is present but falsy, and
  the batch maximum is used (here 2, and \<open>X\<close> is \<open>2 \<times> 12\<close>, not \<open>2 \<times> 0\<close>); a history
  longer than the configured maximum is not truncated, so with maximum 1 a two-turn
  history gives \<open>1 \<times> 12\<close>, not \<open>1 \<times> 6\<close>; and the empty batch raises.
\<close>

theorem preprocess_data_counterexample:
  "max_dialogue_length (Some 0) example_batch = Inr 2 \<and>
   preprocess_data (Some 0) example_batch =
     Inr (NDArray [2, 12]
            [1, 0, 2, 0, 0, 1, 0, 2, 1, 1, 2, 2,
             - 1, - 1, 3, 0, - 1, - 1, 0, 3, - 1, - 1, 3, 3]) \<and>
   preprocess_data (Some 1) [[example_turn 1, example_turn 2]] =
     Inr (NDArray [1, 12] [1, 0, 2, 0, 0, 1, 0, 2, 1, 1, 2, 2]) \<and>
   preprocess_data None [] = Inl ValueError"
  by code_simp

text \<open>
  C7, amended. For a non-empty batch of \<open>N\<close> histories, each with at least one turn
  and, when a non-zero maximum history is configured, at most that many turns, and with
  every per-turn field of width \<open>W\<close>: the effective \<open>max_length\<close> \<open>M\<close> is the configured
  maximum history when it is present and not \<open>0\<close>, and the largest turn count of the
  batch otherwise; the three field matrices have shape \<open>(N, M \<cdot> W)\<close>, and \<open>X\<close> is their
  concatenation along the last axis, of shape \<open>(N, 3 \<cdot> M \<cdot> W)\<close>.
\<close>

theorem preprocess_data_shape:
  assumes batch: "X \<noteq> []"
    and turns: "\<forall>row\<in>set X. row \<noteq> []"
    and cap: "\<forall>m. max_history = Some m \<and> m \<noteq> 0 \<longrightarrow> (\<forall>row\<in>set X. int (length row) \<le> m)"
    and widths: "\<forall>row\<in>set X. \<forall>t\<in>set row.
                   shape (intent t) = [1, W] \<and> shape (previous_action t) = [1, W] \<and>
                   shape (slots t) = [W]"
  shows "\<exists>M Xi Xa Xs Xt.
           max_dialogue_length max_history X = Inr M \<and>
           M = (if max_history = None \<or> max_history = Some 0
                then int (Max (set (map length X))) else the max_history) \<and>
           collect_features max_history X = Inr (Xi, Xa, Xs) \<and>
           shape Xi = [length X, nat M * W] \<and>
           shape Xa = [length X, nat M * W] \<and>
           shape Xs = [length X, nat M * W] \<and>
           concatenate [Xi, Xa, Xs] (- 1) = Inr Xt \<and>
           preprocess_data max_history X = Inr Xt \<and>
           shape Xt = [length X, 3 * nat M * W]"
proof -
  define M where "M = (if max_history = None \<or> max_history = Some 0
                       then int (Max (set (map length X))) else the max_history)"
  have "map length X \<noteq> []"
    using batch by simp
  then have "get_max_dialogue_length X = Inr (Max (set (map length X)))"
    unfolding get_max_dialogue_length_def by (rule py_max_Max)
  then have eff: "max_dialogue_length max_history X = Inr M"
    by (simp add: max_dialogue_length_def M_def)
  have bound: "int (length row) \<le> M" if "row \<in> set X" for row
  proof (cases "max_history = None \<or> max_history = Some 0")
    case True
    have "length row \<le> Max (set (map length X))"
      using that by (intro Max_ge) simp_all
    then show ?thesis
      using True by (simp add: M_def)
  next
    case False
    then obtain m where "max_history = Some m" "m \<noteq> 0"
      by (cases max_history) auto
    then show ?thesis
      using cap that False by (simp add: M_def)
  qed
  have ws: "list_all (well_shaped M W) X"
    using turns widths bound by (simp add: list_all_iff well_shaped_def)
  obtain ri ra rs where
    run: "collect_rows M X ([], [], []) = Inr ([] @ ri, [] @ ra, [] @ rs)" and
    lens: "length ri = length X" "length ra = length X" "length rs = length X" and
    shapes: "list_all (\<lambda>b. shape b = [1, nat M * W]) ri"
      "list_all (\<lambda>b. shape b = [1, nat M * W]) ra"
      "list_all (\<lambda>b. shape b = [1, nat M * W]) rs"
    using collect_rows_shape [OF ws, of "[]" "[]" "[]"] by blast
  have ne: "ri \<noteq> []" "ra \<noteq> []" "rs \<noteq> []"
    using lens batch by auto
  obtain d1 where v1: "vstack ri = Inr (NDArray [length ri, nat M * W] d1)"
    using vstack_rows [OF ne(1) shapes(1)] by blast
  obtain d2 where v2: "vstack ra = Inr (NDArray [length ra, nat M * W] d2)"
    using vstack_rows [OF ne(2) shapes(2)] by blast
  obtain d3 where v3: "vstack rs = Inr (NDArray [length rs, nat M * W] d3)"
    using vstack_rows [OF ne(3) shapes(3)] by blast
  let ?Xi = "NDArray [length X, nat M * W] d1"
  let ?Xa = "NDArray [length X, nat M * W] d2"
  let ?Xs = "NDArray [length X, nat M * W] d3"
  have cf: "collect_features max_history X = Inr (?Xi, ?Xa, ?Xs)"
    using eff run v1 v2 v3 lens by (simp add: collect_features_def)
  obtain d where cat: "concatenate [?Xi, ?Xa, ?Xs] (- 1) = Inr (NDArray [length X, 3 * (nat M * W)] d)"
    using concatenate_three [of ?Xi "length X" "nat M * W" ?Xa ?Xs] by auto
  let ?Xt = "NDArray [length X, 3 * (nat M * W)] d"
  have pp: "preprocess_data max_history X = Inr ?Xt"
    using cf cat by (simp add: preprocess_data_def)
  have "shape ?Xt = [length X, 3 * nat M * W]"
    by (simp add: mult.assoc)
  with eff cf cat pp show ?thesis
    unfolding M_def [symmetric]
    by (intro exI [of _ M] exI [of _ ?Xi] exI [of _ ?Xa] exI [of _ ?Xs] exI [of _ ?Xt]) simp
qed

theorem preprocess_data_shape_witness:
  "example_batch \<noteq> [] \<and>
   max_dialogue_length (Some 3) example_batch = Inr 3 \<and>
   max_dialogue_length None example_batch = Inr 2 \<and>
   (\<exists>Xt. preprocess_data (Some 3) example_batch = Inr Xt \<and> shape Xt = [2, 18]) \<and>
   (\<exists>Xt. preprocess_data None example_batch = Inr Xt \<and> shape Xt = [2, 12])"
proof -
  have batch: "example_batch \<noteq> []"
    by (simp add: example_batch_def)
  have turns: "\<forall>row\<in>set example_batch. row \<noteq> []"
    by (simp add: example_batch_def)
  have cap: "\<forall>m. Some (3::int) = Some m \<and> m \<noteq> 0 \<longrightarrow>
               (\<forall>row\<in>set example_batch. int (length row) \<le> m)"
    by (simp add: example_batch_def)
  have nocap: "\<forall>m. (None::int option) = Some m \<and> m \<noteq> 0 \<longrightarrow>
                 (\<forall>row\<in>set example_batch. int (length row) \<le> m)"
    by simp
  have widths: "\<forall>row\<in>set example_batch. \<forall>t\<in>set row.
                  shape (intent t) = [1, 2] \<and> shape (previous_action t) = [1, 2] \<and>
                  shape (slots t) = [2]"
    by (simp add: example_batch_def example_turn_def)
  have len: "length example_batch = 2" "Max (set (map length example_batch)) = 2"
    by (simp_all add: example_batch_def)
  show ?thesis
    using batch len
      preprocess_data_shape [OF batch turns cap widths]
      preprocess_data_shape [OF batch turns nocap widths]
    by auto
qed

lemma list_setitem_in_range:
  "0 \<le> i \<Longrightarrow> i < int (length xs) \<Longrightarrow> list_setitem xs i v = Inr (xs[nat i := v])"
  by (simp add: list_setitem_def)

lemma fill_predictions_entries:
  assumes "distinct idx" and "\<forall>i\<in>set idx. 0 \<le> i \<and> i < int (length ys)"
    and "length vals = length idx"
  shows "\<exists>out. fill_predictions (zip idx vals) ys = Inr out \<and> length out = length ys \<and>
           (\<forall>k<length idx. out ! nat (idx ! k) = vals ! k) \<and>
           (\<forall>a<length ys. int a \<notin> set idx \<longrightarrow> out ! a = ys ! a)"
  using assms
proof (induction idx arbitrary: vals ys)
  case Nil
  then show ?case by simp
next
  case (Cons i idx)
  obtain v vals' where vals: "vals = v # vals'"
    using Cons.prems(3) by (cases vals) auto
  let ?ys = "ys[nat i := v]"
  have i: "0 \<le> i" "i < int (length ys)" "i \<notin> set idx"
    using Cons.prems(1,2) by auto
  have step: "list_setitem ys i v = Inr ?ys"
    using i by (simp add: list_setitem_in_range)
  have "\<exists>out. fill_predictions (zip idx vals') ?ys = Inr out \<and> length out = length ?ys \<and>
           (\<forall>k<length idx. out ! nat (idx ! k) = vals' ! k) \<and>
           (\<forall>a<length ?ys. int a \<notin> set idx \<longrightarrow> out ! a = ?ys ! a)"
    using Cons.prems vals by (intro Cons.IH) auto
  then obtain out where out: "fill_predictions (zip idx vals') ?ys = Inr out"
      "length out = length ys"
      "\<forall>k<length idx. out ! nat (idx ! k) = vals' ! k"
      "\<forall>a<length ys. int a \<notin> set idx \<longrightarrow> out ! a = ?ys ! a"
    by auto
  have run: "fill_predictions (zip (i # idx) vals) ys = Inr out"
    using vals step out(1) by simp
  have here: "out ! nat i = v"
  proof -
    have "nat i < length ys" using i by auto
    moreover have "int (nat i) \<notin> set idx" using i by simp
    ultimately have "out ! nat i = ?ys ! nat i" using out(4) by blast
    then show ?thesis using \<open>nat i < length ys\<close> by simp
  qed
  have seen: "\<forall>k<length (i # idx). out ! nat ((i # idx) ! k) = vals ! k"
  proof (intro allI impI)
    fix k assume "k < length (i # idx)"
    then show "out ! nat ((i # idx) ! k) = vals ! k"
      using here out(3) vals by (cases k) auto
  qed
  have unseen: "\<forall>a<length ys. int a \<notin> set (i # idx) \<longrightarrow> out ! a = ys ! a"
  proof (intro allI impI)
    fix a assume a: "a < length ys" "int a \<notin> set (i # idx)"
    then have "out ! a = ?ys ! a" using out(4) by auto
    moreover have "a \<noteq> nat i" using a i by auto
    ultimately show "out ! a = ys ! a" by simp
  qed
  show ?case
    using run out(2) seen unseen by blast
qed

lemma sum_list_update_real:
  fixes xs :: "real list"
  shows "k < length xs \<Longrightarrow> sum_list (xs[k := v]) = sum_list xs - xs ! k + v"
proof (induction xs arbitrary: k)
  case Nil
  then show ?case by simp
next
  case (Cons x xs)
  then show ?case by (cases k) auto
qed

lemma fill_predictions_sum:
  assumes "distinct idx" and "\<forall>i\<in>set idx. 0 \<le> i \<and> i < int (length ys)"
    and "length vals = length idx" and "\<forall>i\<in>set idx. ys ! nat i = 0"
    and "fill_predictions (zip idx vals) ys = Inr out"
  shows "sum_list out = sum_list ys + sum_list vals"
  using assms
proof (induction idx arbitrary: vals ys)
  case Nil
  then show ?case by simp
next
  case (Cons i idx)
  obtain v vals' where vals: "vals = v # vals'"
    using Cons.prems(3) by (cases vals) auto
  let ?ys = "ys[nat i := v]"
  have i: "0 \<le> i" "i < int (length ys)" "i \<notin> set idx" "ys ! nat i = 0"
    using Cons.prems(1,2,4) by auto
  have step: "list_setitem ys i v = Inr ?ys"
    using i by (simp add: list_setitem_in_range)
  have run: "fill_predictions (zip idx vals') ?ys = Inr out"
    using Cons.prems(5) vals step by simp
  have zero: "\<forall>j\<in>set idx. ?ys ! nat j = 0"
  proof
    fix j assume j: "j \<in> set idx"
    then have "j \<noteq> i" "0 \<le> j" using i Cons.prems(2) by auto
    then have "nat j \<noteq> nat i" using i by auto
    then show "?ys ! nat j = 0" using Cons.prems(4) j by simp
  qed
  have "sum_list out = sum_list ?ys + sum_list vals'"
    using Cons.prems(1,2,3) vals zero run by (intro Cons.IH) auto
  moreover have "sum_list ?ys = sum_list ys + v"
    using i sum_list_update_real [of "nat i" ys v] by auto
  ultimately show ?case
    using vals by simp
qed

lemma inverse_transform_fit:
  assumes "n = length (sort (remdups y))"
  shows "LabelEncoder_inverse_transform (LabelEncoder_fit y) [0..<n] = Inr (sort (remdups y))"
  using assms map_nth [of "sort (remdups y)"]
  by (simp add: LabelEncoder_inverse_transform_def LabelEncoder_fit_def list_all_iff)

lemma inverse_transform_one:
  assumes "k < length (sort (remdups y))"
  shows "LabelEncoder_inverse_transform (LabelEncoder_fit y) [k] = Inr [sort (remdups y) ! k]"
  using assms
  by (simp add: LabelEncoder_inverse_transform_def LabelEncoder_fit_def)

text \<open>
  C1. For a policy whose label encoder was fit on the training labels \<open>y_train\<close>, all of
  them action indices of the domain, and a model output with one probability per seen
  label: the post-processing returns a vector of \<open>num_actions\<close> entries; the entry of every
  action that was never a training label is \<open>0\<close>; the probability of code \<open>k\<close> stands at
  the index that decoding \<open>k\<close> gives; and the entries of the seen labels, as well as the
  whole vector, sum to what the model's probabilities sum to: nothing is renormalised.
\<close>

theorem postprocess_prediction_reconciles:
  assumes fitted: "enc = LabelEncoder_fit y_train"
    and labels: "\<forall>l\<in>set y_train. 0 \<le> l \<and> l < num_actions d"
    and probs: "length yp = length (sort (remdups y_train))"
  shows "\<exists>y_filled.
           postprocess_prediction enc (yp # more_rows) d = Inr y_filled \<and>
           length y_filled = nat (num_actions d) \<and>
           (\<forall>a<nat (num_actions d). int a \<notin> set y_train \<longrightarrow> y_filled ! a = 0) \<and>
           (\<forall>k<length yp. \<exists>l. LabelEncoder_inverse_transform enc [k] = Inr [l] \<and>
                                y_filled ! nat l = yp ! k) \<and>
           sum_list (map (\<lambda>l. y_filled ! nat l) (sort (remdups y_train))) = sum_list yp \<and>
           sum_list y_filled = sum_list yp"
proof -
  let ?cs = "sort (remdups y_train)"
  let ?zeros = "replicate (nat (num_actions d)) (0::real)"
  have dist: "distinct ?cs"
    by simp
  have range: "\<forall>i\<in>set ?cs. 0 \<le> i \<and> i < int (length ?zeros)"
    using labels by auto
  have len: "length yp = length ?cs"
    using probs .
  have inv: "LabelEncoder_inverse_transform enc [0..<length yp] = Inr ?cs"
    unfolding fitted using probs by (rule inverse_transform_fit)
  obtain out where out: "fill_predictions (zip ?cs yp) ?zeros = Inr out"
      "length out = length ?zeros"
      "\<forall>k<length ?cs. out ! nat (?cs ! k) = yp ! k"
      "\<forall>a<length ?zeros. int a \<notin> set ?cs \<longrightarrow> out ! a = ?zeros ! a"
    using fill_predictions_entries [OF dist range len] by blast
  have run: "postprocess_prediction enc (yp # more_rows) d = Inr out"
    using inv out(1) by (simp add: postprocess_prediction_def)
  have size: "length out = nat (num_actions d)"
    using out(2) by simp
  have unseen: "\<forall>a<nat (num_actions d). int a \<notin> set y_train \<longrightarrow> out ! a = 0"
    using out(4) by simp
  have seen: "\<forall>k<length yp. \<exists>l. LabelEncoder_inverse_transform enc [k] = Inr [l] \<and>
                                 out ! nat l = yp ! k"
  proof (intro allI impI)
    fix k assume k: "k < length yp"
    then have "LabelEncoder_inverse_transform enc [k] = Inr [?cs ! k]"
      unfolding fitted using len by (intro inverse_transform_one) simp
    moreover have "out ! nat (?cs ! k) = yp ! k"
      using out(3) k len by simp
    ultimately show "\<exists>l. LabelEncoder_inverse_transform enc [k] = Inr [l] \<and> out ! nat l = yp ! k"
      by blast
  qed
  have "map (\<lambda>l. out ! nat l) ?cs = yp"
    using out(3) len by (intro nth_equalityI) simp_all
  then have mass: "sum_list (map (\<lambda>l. out ! nat l) ?cs) = sum_list yp"
    by simp
  have zero: "\<forall>i\<in>set ?cs. ?zeros ! nat i = 0"
  proof
    fix i assume "i \<in> set ?cs"
    then have "nat i < nat (num_actions d)"
      using labels by auto
    then show "?zeros ! nat i = 0"
      by simp
  qed
  have "sum_list out = sum_list ?zeros + sum_list yp"
    using dist range len zero out(1) by (rule fill_predictions_sum)
  then have total: "sum_list out = sum_list yp"
    by (simp add: sum_list_replicate)
  show ?thesis
    using run size unseen seen mass total by blast
qed

theorem postprocess_prediction_reconciles_witness:
  "list_all (\<lambda>l. 0 \<le> l \<and> l < num_actions example_domain) [3, 1, 3] \<and>
   length [1 / 4, 3 / 4 :: real] = length (sort (remdups [3, 1, 3 :: int])) \<and>
   (\<exists>y_filled.
      postprocess_prediction (LabelEncoder_fit [3, 1, 3]) [[1 / 4, 3 / 4]] example_domain =
        Inr y_filled \<and>
      y_filled = [0, 1 / 4, 0, 3 / 4, 0] \<and> length y_filled = 5 \<and> sum_list y_filled = 1)"
proof -
  have labels: "\<forall>l\<in>set [3, 1, 3]. 0 \<le> l \<and> l < num_actions example_domain"
    by (simp add: example_domain_def)
  have probs: "length [1 / 4, 3 / 4 :: real] = length (sort (remdups [3, 1, 3 :: int]))"
    by simp
  have run: "postprocess_prediction (LabelEncoder_fit [3, 1, 3]) [[1 / 4, 3 / 4]] example_domain =
               Inr [0, 1 / 4, 0, 3 / 4, 0]"
    by (simp add: postprocess_prediction_def LabelEncoder_fit_def
        LabelEncoder_inverse_transform_def example_domain_def list_setitem_def
        eval_nat_numeral upt_rec)
  show ?thesis
    using labels probs run
      postprocess_prediction_reconciles [OF refl labels probs, of "[]"]
    by auto
qed

lemma path_join_neq [simp]:
  "(path_join path a = path_join path b) = (a = b)"
  by (simp add: path_join_def)

lemma persist_trained:
  assumes "truthy (model self)"
  shows "persist self path w =
           w\<lparr>directories := path # directories w,
             files := (path_join path ''sklearn_model.pkl'', PickleFile (state self)) #
                      (path_join path ''sklearn_policy.json'', JsonFile [(''priority'', priority self)]) #
                      (path_join path ''featurizer.json'', FeaturizerFile (featurizer self)) #
                      files w\<rparr>"
  using assms
  by (simp add: persist_def pickle_dump_def dump_obj_as_json_to_file_def featurizer_persist_def
      write_file_def)

lemma persist_without_model:
  "persist (self\<lparr>model := None\<rparr>) path w =
     w\<lparr>warnings := warnings w @
          [''Persist called without a trained model present. Nothing to persist then!'']\<rparr>"
  by (simp add: persist_def raise_warning_def)

text \<open>
  C2 does not hold of the code. A policy built by the constructor holds the default
  model from the start, an estimator that was never fit; it is true as a Python object,
  so \<^verbatim>\<open>persist\<close> takes the writing branch: the featurizer file, the metadata record
  and the pickled state are written and no warning is issued. The warning branch is
  reached only when \<^verbatim>\<open>model\<close> holds \<^verbatim>\<open>None\<close> (lemma \<open>persist_without_model\<close>).
\<close>

theorem persist_untrained_writes:
  "\<exists>p. SklearnPolicy_new standard_featurizer None DEFAULT_POLICY_PRIORITY = Inr p \<and>
        model p = Some default_model \<and> est_fitted default_model = None \<and>
        files (persist p path w) =
          (path_join path ''sklearn_model.pkl'', PickleFile (state p)) #
          (path_join path ''sklearn_policy.json'', JsonFile [(''priority'', DEFAULT_POLICY_PRIORITY)]) #
          (path_join path ''featurizer.json'', FeaturizerFile standard_featurizer) #
          files w \<and>
        warnings (persist p path w) = warnings w"
  by (simp add: SklearnPolicy_new_def SklearnPolicy_init_def persist_trained default_model_def)

text \<open>
  C8 as stated fails. The test is \<^verbatim>\<open>os.path.exists(path)\<close>, which also holds for a
  regular file: when the directory does not exist but a file of that name does, no path
  error is raised; the featurizer cannot be loaded from it and the \<^verbatim>\<open>assert\<close> fails.
\<close>

theorem load_path_is_file:
  "''models/sklearn'' \<notin>
     set (directories (empty_world\<lparr>files := [(''models/sklearn'', JsonFile [])]\<rparr>)) \<and>
   load example_featurizer ''models/sklearn''
     (empty_world\<lparr>files := [(''models/sklearn'', JsonFile [])]\<rparr>) = Inl AssertionError"
  by (simp add: load_def path_exists_def TrackerFeaturizer_load_def empty_world_def path_join_def)

text \<open>
  C8, amended. \<^verbatim>\<open>load\<close> raises the path error (OSError in the code) whenever nothing
  exists at the path, neither a directory nor a file; when something exists there and the
  featurizer loaded from it is missing or not a \<^verbatim>\<open>MaxHistoryTrackerFeaturizer\<close>, it
  raises the featurizer kind error (the AssertionError of the \<^verbatim>\<open>assert isinstance\<close>).
  Both reach the caller as the result of \<^verbatim>\<open>load\<close>.
\<close>

theorem load_failures:
  "(\<not> path_exists w path \<longrightarrow> load standard_featurizer path w = Inl OSError) \<and>
   (path_exists w path \<and>
    (case TrackerFeaturizer_load path w of
       None \<Rightarrow> True
     | Some f \<Rightarrow> \<not> is_MaxHistoryTrackerFeaturizer f) \<longrightarrow>
    load standard_featurizer path w = Inl AssertionError)"
  by (simp add: load_def split: option.splits)

theorem load_failures_witness:
  "\<not> path_exists empty_world ''models/sklearn'' \<and>
   load example_featurizer ''models/sklearn'' empty_world = Inl OSError \<and>
   path_exists (empty_world\<lparr>directories := [''models/sklearn'']\<rparr>) ''models/sklearn'' \<and>
   load example_featurizer ''models/sklearn''
     (empty_world\<lparr>directories := [''models/sklearn'']\<rparr>) = Inl AssertionError \<and>
   load example_featurizer ''models/sklearn''
     (featurizer_persist (FullDialogueTrackerFeaturizer ''BinarySingleStateFeaturizer'')
        ''models/sklearn'' empty_world) = Inl AssertionError"
proof -
  let ?bare = "empty_world\<lparr>directories := [''models/sklearn'']\<rparr>"
  let ?other = "featurizer_persist (FullDialogueTrackerFeaturizer ''BinarySingleStateFeaturizer'')
                  ''models/sklearn'' empty_world"
  have missing: "\<not> path_exists empty_world ''models/sklearn''"
    by (simp add: path_exists_def empty_world_def)
  have there: "path_exists ?bare ''models/sklearn''" "path_exists ?other ''models/sklearn''"
    by (simp_all add: path_exists_def empty_world_def featurizer_persist_def write_file_def)
  have none: "TrackerFeaturizer_load ''models/sklearn'' ?bare = None"
    by (simp add: TrackerFeaturizer_load_def empty_world_def)
  have full: "TrackerFeaturizer_load ''models/sklearn'' ?other =
                Some (FullDialogueTrackerFeaturizer ''BinarySingleStateFeaturizer'')"
    by (simp add: TrackerFeaturizer_load_def featurizer_persist_def write_file_def)
  show ?thesis
    using missing there none full
      load_failures [of empty_world "''models/sklearn''" example_featurizer]
      load_failures [of ?bare "''models/sklearn''" example_featurizer]
      load_failures [of ?other "''models/sklearn''" example_featurizer]
    by simp
qed

lemma load_persist:
  assumes "truthy (model P)" and "is_MaxHistoryTrackerFeaturizer (featurizer P)"
  shows "load standard_featurizer path (persist P path w) =
           Inr \<lparr>featurizer = featurizer P, priority = priority P, model = model P, cv = cv P,
                param_grid = param_grid P, scoring = scoring P,
                label_encoder = label_encoder P, shuffle = True, train_params = []\<rparr>"
  using assms
  by (simp add: persist_trained load_def path_exists_def TrackerFeaturizer_load_def
      read_json_def pickle_load_def SklearnPolicy_new_def SklearnPolicy_init_def state_def)

text \<open>
  C6. For a policy that holds a model and a \<^verbatim>\<open>MaxHistoryTrackerFeaturizer\<close> (the
  constructor admits no other kind): \<^verbatim>\<open>load\<close> on what \<^verbatim>\<open>persist\<close> wrote succeeds, and the
  loaded policy has the same featurizer, model and label encoder, hence the same result
  of \<^verbatim>\<open>predict_action_probabilities\<close> on every tracker and domain, whatever \<^verbatim>\<open>create_X\<close>
  and \<^verbatim>\<open>predict_proba\<close> compute. The files give back what was written to them.
\<close>

theorem load_persist_prediction:
  assumes "model P = Some m" and "is_MaxHistoryTrackerFeaturizer (featurizer P)"
  shows "\<exists>loaded.
           load standard_featurizer path (persist P path w) = Inr loaded \<and>
           featurizer loaded = featurizer P \<and> model loaded = model P \<and>
           label_encoder loaded = label_encoder P \<and>
           predict_action_probabilities create_X predict_proba loaded tracker d interpreter =
             predict_action_probabilities create_X predict_proba P tracker d interpreter"
proof -
  let ?loaded = "\<lparr>featurizer = featurizer P, priority = priority P, model = model P, cv = cv P,
                   param_grid = param_grid P, scoring = scoring P,
                   label_encoder = label_encoder P, shuffle = True, train_params = []\<rparr>"
  have "truthy (model P)"
    using assms(1) by simp
  then have run: "load standard_featurizer path (persist P path w) = Inr ?loaded"
    using assms(2) by (rule load_persist)
  have same: "predict_action_probabilities create_X predict_proba ?loaded tracker d interpreter =
                predict_action_probabilities create_X predict_proba P tracker d interpreter"
    by (simp add: predict_action_probabilities_def policy_preprocess_data_def
        cong: sum.case_cong option.case_cong)
  show ?thesis
    using run same by simp
qed

theorem load_persist_prediction_witness:
  "model example_policy \<noteq> None \<and>
   is_MaxHistoryTrackerFeaturizer (featurizer example_policy) \<and>
   predict_action_probabilities (\<lambda>f ts d i. Inr [[example_turn 1]]) (\<lambda>m Xt. Inr [[1 / 4, 3 / 4]])
     example_policy () example_domain () = Inr [0, 1 / 4, 0, 3 / 4, 0] \<and>
   (\<exists>loaded.
      load example_featurizer ''models/sklearn''
        (persist example_policy ''models/sklearn'' empty_world) = Inr loaded \<and>
      predict_action_probabilities (\<lambda>f ts d i. Inr [[example_turn 1]])
        (\<lambda>m Xt. Inr [[1 / 4, 3 / 4]]) loaded () example_domain () =
        Inr [0, 1 / 4, 0, 3 / 4, 0])"
proof -
  obtain m where trained: "model example_policy = Some m"
    by (simp add: example_policy_def)
  have kind: "is_MaxHistoryTrackerFeaturizer (featurizer example_policy)"
    by (simp add: example_policy_def example_featurizer_def)
  have before: "predict_action_probabilities (\<lambda>f ts d i. Inr [[example_turn 1]])
                  (\<lambda>m Xt. Inr [[1 / 4, 3 / 4]]) example_policy () example_domain () =
                Inr [0, 1 / 4, 0, 3 / 4, 0]"
    by code_simp
  show ?thesis
    using trained kind before
      load_persist_prediction [OF trained kind,
        where standard_featurizer = example_featurizer and path = "''models/sklearn''"
          and w = empty_world and create_X = "\<lambda>f ts d i. Inr [[example_turn 1]]"
          and predict_proba = "\<lambda>m Xt. Inr [[1 / 4, 3 / 4]]"
          and tracker = "()" and d = example_domain and interpreter = "()"]
    by auto
qed

text \<open>
  C10 as stated fails: the priority is a constructor argument outside the five pickled
  attributes, and \<^verbatim>\<open>load\<close> restores it from the metadata record instead of resetting it
  to its default. A policy persisted with priority 7 is loaded with priority 7.
\<close>

theorem load_priority_restored:
  "load example_featurizer ''models/sklearn''
     (persist example_policy ''models/sklearn'' empty_world) =
     Inr (example_policy\<lparr>shuffle := True, train_params := []\<rparr>) \<and>
   priority (example_policy\<lparr>shuffle := True, train_params := []\<rparr>) = 7 \<and>
   DEFAULT_POLICY_PRIORITY = 1"
proof -
  have "truthy (model example_policy)"
    by (simp add: example_policy_def)
  moreover have "is_MaxHistoryTrackerFeaturizer (featurizer example_policy)"
    by (simp add: example_policy_def example_featurizer_def)
  ultimately have "load example_featurizer ''models/sklearn''
     (persist example_policy ''models/sklearn'' empty_world) =
     Inr \<lparr>featurizer = featurizer example_policy, priority = priority example_policy,
          model = model example_policy, cv = cv example_policy,
          param_grid = param_grid example_policy, scoring = scoring example_policy,
          label_encoder = label_encoder example_policy, shuffle = True, train_params = []\<rparr>"
    by (rule load_persist)
  then show ?thesis
    by (simp add: example_policy_def DEFAULT_POLICY_PRIORITY_def)
qed

text \<open>
  C10, amended. A policy that \<^verbatim>\<open>load\<close> returns has \<^verbatim>\<open>shuffle = True\<close> and no extra
  training keyword arguments, its five pickled attributes are those of the pickled state,
  its featurizer is the one loaded from the directory and its priority the one of the
  metadata record. Loading what \<^verbatim>\<open>persist\<close> wrote for a policy \<open>P\<close> gives \<open>P\<close> with
  \<^verbatim>\<open>shuffle\<close> reset to \<^verbatim>\<open>True\<close> and the extra keyword arguments emptied, whatever they
  were in \<open>P\<close>.
\<close>

theorem load_restores:
  "(load standard_featurizer path w = Inr loaded \<longrightarrow>
      shuffle loaded = True \<and> train_params loaded = [] \<and>
      pickle_load (path_join path ''sklearn_model.pkl'') w = Inr (state loaded) \<and>
      TrackerFeaturizer_load path w = Some (featurizer loaded) \<and>
      (\<exists>meta. read_json (path_join path ''sklearn_policy.json'') w = Inr meta \<and>
              map_of meta ''priority'' = Some (priority loaded))) \<and>
   (truthy (model P) \<and> is_MaxHistoryTrackerFeaturizer (featurizer P) \<longrightarrow>
      load standard_featurizer path (persist P path w_init) =
        Inr (P\<lparr>shuffle := True, train_params := []\<rparr>))"
proof -
  have any: "shuffle loaded = True \<and> train_params loaded = [] \<and>
      pickle_load (path_join path ''sklearn_model.pkl'') w = Inr (state loaded) \<and>
      TrackerFeaturizer_load path w = Some (featurizer loaded) \<and>
      (\<exists>meta. read_json (path_join path ''sklearn_policy.json'') w = Inr meta \<and>
              map_of meta ''priority'' = Some (priority loaded))"
    if ok: "load standard_featurizer path w = Inr loaded"
    using ok
    by (auto simp add: load_def SklearnPolicy_new_def SklearnPolicy_init_def state_def
        split: if_splits option.splits sum.splits)
  have round: "load standard_featurizer path (persist P path w_init) =
        Inr (P\<lparr>shuffle := True, train_params := []\<rparr>)"
    if "truthy (model P) \<and> is_MaxHistoryTrackerFeaturizer (featurizer P)"
  proof -
    have "load standard_featurizer path (persist P path w_init) =
           Inr \<lparr>featurizer = featurizer P, priority = priority P, model = model P, cv = cv P,
                param_grid = param_grid P, scoring = scoring P,
                label_encoder = label_encoder P, shuffle = True, train_params = []\<rparr>"
      using that by (simp add: load_persist)
    then show ?thesis
      by simp
  qed
  show ?thesis
    using any round by blast
qed

theorem load_restores_witness:
  "truthy (model example_policy) \<and> is_MaxHistoryTrackerFeaturizer (featurizer example_policy) \<and>
   shuffle example_policy = False \<and> train_params example_policy = [(''C'', ''10'')] \<and>
   load example_featurizer ''models/sklearn''
     (persist example_policy ''models/sklearn'' empty_world) =
     Inr (example_policy\<lparr>shuffle := True, train_params := []\<rparr>) \<and>
   pickle_load (path_join ''models/sklearn'' ''sklearn_model.pkl'')
     (persist example_policy ''models/sklearn'' empty_world) = Inr (state example_policy)"
proof -
  have trained: "truthy (model example_policy)"
    by (simp add: example_policy_def)
  have kind: "is_MaxHistoryTrackerFeaturizer (featurizer example_policy)"
    by (simp add: example_policy_def example_featurizer_def)
  have fields: "shuffle example_policy = False" "train_params example_policy = [(''C'', ''10'')]"
    by (simp_all add: example_policy_def)
  have same: "state (example_policy\<lparr>shuffle := True, train_params := []\<rparr>) = state example_policy"
    by (simp add: state_def)
  show ?thesis
    using trained kind fields same
      load_restores [where standard_featurizer = example_featurizer
          and path = "''models/sklearn''"
          and w = "persist example_policy ''models/sklearn'' empty_world"
          and loaded = "example_policy\<lparr>shuffle := True, train_params := []\<rparr>"
          and P = example_policy and w_init = empty_world]
    by auto
qed

text \<open>
  C5 does not hold of the code. The grid search is built with the constant scoring
  \<^verbatim>\<open>"accuracy"\<close>; the policy's \<^verbatim>\<open>scoring\<close> attribute is never read. For a policy
  configured with \<^verbatim>\<open>cv=3\<close> and \<^verbatim>\<open>scoring="f1_macro"\<close> the search runs under accuracy, and
  training with any other \<^verbatim>\<open>scoring\<close> gives the same model and the same score.
\<close>

theorem search_ignores_scoring:
  "scoring example_policy = Some ''f1_macro'' \<and> cv example_policy = Some 3 \<and>
   gs_scoring (GridSearchCV example_policy m grid) = ''accuracy'' \<and>
   gs_scoring (GridSearchCV (self\<lparr>scoring := s\<rparr>) m grid) = ''accuracy'' \<and>
   search_and_score sk (self\<lparr>scoring := s\<rparr>) m X y grid = search_and_score sk self m X y grid \<and>
   train sk (self\<lparr>scoring := s\<rparr>) featurized kwargs =
     map_sum id (\<lambda>r. ((fst r)\<lparr>scoring := s\<rparr>, snd r)) (train sk self featurized kwargs)"
proof -
  have a: "scoring example_policy = Some ''f1_macro'' \<and> cv example_policy = Some 3"
    by (simp add: example_policy_def)
  have b: "gs_scoring (GridSearchCV p m grid) = ''accuracy''" for p
    by (simp add: GridSearchCV_def)
  have c: "search_and_score sk (self\<lparr>scoring := s\<rparr>) m' X' y' grid' =
             search_and_score sk self m' X' y' grid'" for m' X' y' grid'
    by (simp add: search_and_score_def GridSearchCV_def)
  have d: "train sk (self\<lparr>scoring := s\<rparr>) featurized kwargs =
     map_sum id (\<lambda>r. ((fst r)\<lparr>scoring := s\<rparr>, snd r)) (train sk self featurized kwargs)"
    unfolding train_def Let_def c
    by (auto simp add: policy_preprocess_data_def split: option.splits sum.splits prod.splits)
  show ?thesis
    using a b c d by simp
qed

end
